theory Spec2Isabelle
  imports Complex_Main
begin

section \<open>Nginx log watcher: an embedding of \<^verbatim>\<open>watcher.py\<close>\<close>

text \<open>
  The class \<^verbatim>\<open>LogWatcher\<close> is a record of its attributes; each method takes the
  record and returns the updated record together with what it prints or posts.
  Text is a list of code points below 256. A Python float is the real number it
  denotes: the clock and the threshold are given as such, the two operations that
  compute the error rate round as IEEE doubles do, the difference of two clock
  readings is taken exactly, and the request time, which no decision reads, is kept
  as the decimal number written in the line.
  Every value read from \<^verbatim>\<open>time.time()\<close> is an argument of the method that reads it.
\<close>

subsection \<open>Characters, as the regular expressions and \<^verbatim>\<open>int\<close>/\<^verbatim>\<open>float\<close> class them\<close>

definition is_digit :: "char \<Rightarrow> bool" where
  "is_digit c = (let n = (of_char c :: nat) in 48 \<le> n \<and> n \<le> 57)"

text \<open>Whitespace of \<^verbatim>\<open>\s\<close> and of \<^verbatim>\<open>str.strip\<close> among the code points below 256.\<close>

definition is_space :: "char \<Rightarrow> bool" where
  "is_space c = (let n = (of_char c :: nat) in
     (9 \<le> n \<and> n \<le> 13) \<or> (28 \<le> n \<and> n \<le> 32) \<or> n = 133 \<or> n = 160)"

definition non_space :: "char \<Rightarrow> bool" where
  "non_space c = (\<not> is_space c)"

definition digit_or_dot :: "char \<Rightarrow> bool" where
  "digit_or_dot c = (is_digit c \<or> c = CHR ''.'')"

definition digit_dot_comma_space :: "char \<Rightarrow> bool" where
  "digit_dot_comma_space c = (is_digit c \<or> c = CHR ''.'' \<or> c = CHR '','' \<or> is_space c)"

definition strip :: "string \<Rightarrow> string" where
  "strip s = rev (dropWhile is_space (rev (dropWhile is_space s)))"

text \<open>
  Whitespace that \<^verbatim>\<open>int\<close> skips around a literal: the C whitespace of ASCII and
  the Unicode spaces above it. The separators 0x1C to 0x1F are not among them.
\<close>

definition is_int_space :: "char \<Rightarrow> bool" where
  "is_int_space c = (let n = (of_char c :: nat) in
     (9 \<le> n \<and> n \<le> 13) \<or> n = 32 \<or> n = 133 \<or> n = 160)"

definition int_strip :: "string \<Rightarrow> string" where
  "int_strip s = rev (dropWhile is_int_space (rev (dropWhile is_int_space s)))"

definition digit_val :: "char \<Rightarrow> nat" where
  "digit_val c = of_char c - 48"

fun digits_value :: "nat \<Rightarrow> string \<Rightarrow> nat" where
  "digits_value acc [] = acc"
| "digits_value acc (c # cs) = digits_value (10 * acc + digit_val c) cs"

subsection \<open>\<^verbatim>\<open>re.search\<close> for the patterns of \<^verbatim>\<open>parse_log_line\<close>\<close>

text \<open>
  \<^verbatim>\<open>re.search(key + '(C+)', line)\<close> for a literal \<open>key\<close> and a character class \<open>C\<close>:
  the leftmost position where \<open>key\<close> is followed by at least one character of the
  class; group 1 is the longest run of the class there (\<^verbatim>\<open>+\<close> is greedy).
\<close>

fun re_search_class :: "string \<Rightarrow> (char \<Rightarrow> bool) \<Rightarrow> string \<Rightarrow> string option" where
  "re_search_class key cls [] = None"
| "re_search_class key cls (c # cs) =
     (if take (length key) (c # cs) = key \<and> takeWhile cls (drop (length key) (c # cs)) \<noteq> []
      then Some (takeWhile cls (drop (length key) (c # cs)))
      else re_search_class key cls cs)"

text \<open>
  \<^verbatim>\<open>re.search(r'"[^"]*" (\d{3})', line)\<close>: from an opening quote the class
  \<^verbatim>\<open>[^"]*\<close> can only end at the next quote, which must be followed by a space and
  three digits; otherwise the search goes on from the next character.
\<close>

fun re_search_status :: "string \<Rightarrow> string option" where
  "re_search_status [] = None"
| "re_search_status (c # cs) =
     (if c = CHR 0x22 then
        (case dropWhile (\<lambda>x. x \<noteq> CHR 0x22) cs of
           q # sp # d1 # d2 # d3 # rest \<Rightarrow>
             if sp = CHR 0x20 \<and> is_digit d1 \<and> is_digit d2 \<and> is_digit d3
             then Some [d1, d2, d3] else re_search_status cs
         | _ \<Rightarrow> re_search_status cs)
      else re_search_status cs)"

text \<open>\<^verbatim>\<open>str.split(',')\<close>: the pieces between commas, empty pieces kept.\<close>

fun split_comma :: "string \<Rightarrow> string list" where
  "split_comma [] = [[]]"
| "split_comma (c # cs) =
     (if c = CHR '','' then [] # split_comma cs
      else (case split_comma cs of [] \<Rightarrow> [[c]] | p # ps \<Rightarrow> (c # p) # ps))"

subsection \<open>\<^verbatim>\<open>int(str)\<close> and \<^verbatim>\<open>float(str)\<close>\<close>

datatype py_error = ValueError

text \<open>
  The digits of a decimal literal: digits with single underscores between them.
\<close>

fun digits_ok :: "string \<Rightarrow> bool" where
  "digits_ok [] = False"
| "digits_ok [c] = is_digit c"
| "digits_ok (c # d # r) =
     (if is_digit c then (if d = CHR ''_'' then digits_ok r else digits_ok (d # r)) else False)"

text \<open>
  The most digits \<^verbatim>\<open>int\<close> converts from a string: the default of
  \<^verbatim>\<open>sys.int_info.default_max_str_digits\<close>.
\<close>

definition int_max_str_digits :: nat where
  "int_max_str_digits = 4300"

text \<open>
  \<^verbatim>\<open>int(s)\<close> in base 10: surrounding whitespace is skipped, then an optional sign,
  then the digits, leading zeros counted, no more of them than the limit. Anything
  else raises \<^verbatim>\<open>ValueError\<close>.
\<close>

definition py_int :: "string \<Rightarrow> py_error + int" where
  "py_int s =
     (let t = int_strip s;
          neg = (case t of [] \<Rightarrow> False | c # r \<Rightarrow> c = CHR ''-'');
          body = (case t of [] \<Rightarrow> [] | c # r \<Rightarrow> if c = CHR ''-'' \<or> c = CHR ''+'' then r else t)
      in if digits_ok body \<and> length (filter is_digit body) \<le> int_max_str_digits
         then Inr ((if neg then - 1 else 1) * int (digits_value 0 (filter is_digit body)))
         else Inl ValueError)"

subsection \<open>Double precision\<close>

text \<open>
  A double is kept as its mantissa and exponent, \<open>(m, k)\<close> for \<open>m * 2 ^ k\<close>. The
  double nearest to a fraction \<open>n / d\<close> of integers, ties to the even mantissa:
  the fraction is scaled by powers of two until its integer part has 53 bits
  (between \<open>2 ^ 52 = 4503599627370496\<close> and \<open>2 ^ 53 = 9007199254740992\<close>), rounded
  there, and the scaling is kept as the exponent. The steps are counted down from
  more than the exponent range of a double; fractions too large or too small for a
  normal double do not occur here, the operands being counts of window entries, and
  the denominator is never 0.
\<close>

fun scale_to_53_bits :: "nat \<Rightarrow> int \<Rightarrow> int \<Rightarrow> int \<Rightarrow> int \<times> int \<times> int" where
  "scale_to_53_bits 0 n d k = (n, d, k)"
| "scale_to_53_bits (Suc fuel) n d k =
     (if n < 4503599627370496 * d then scale_to_53_bits fuel (2 * n) d (k - 1)
      else if 9007199254740992 * d \<le> n then scale_to_53_bits fuel n (2 * d) (k + 1)
      else (n, d, k))"

definition double_of_fraction :: "int \<Rightarrow> int \<Rightarrow> int \<times> int" where
  "double_of_fraction n d =
     (if n = 0 then (0, 0)
      else (case scale_to_53_bits 2200 n d 0 of
              (n', d', k) \<Rightarrow>
                (let f = n' div d'; r = n' mod d'
                 in (if 2 * r < d' then f else if d' < 2 * r then f + 1
                     else if even f then f else f + 1, k))))"

text \<open>The product of a double and an integer, rounded to a double.\<close>

definition double_times_int :: "int \<times> int \<Rightarrow> int \<Rightarrow> int \<times> int" where
  "double_times_int x c =
     (case x of (m, k) \<Rightarrow>
        if 0 \<le> k then double_of_fraction (m * 2 ^ nat k * c) 1
        else double_of_fraction (m * c) (2 ^ nat (- k)))"

definition double_value :: "int \<times> int \<Rightarrow> real" where
  "double_value x =
     (case x of (m, k) \<Rightarrow> of_int m * (if 0 \<le> k then 2 ^ nat k else 1 / 2 ^ nat (- k)))"

text \<open>
  \<^verbatim>\<open>float(s)\<close> on a string of digits and dots, which is all the pattern
  \<^verbatim>\<open>request_time=([\d.]+)\<close> can capture: a literal needs at least one digit and at
  most one dot. The value is the decimal number itself.
\<close>

definition py_float :: "string \<Rightarrow> py_error + real" where
  "py_float s =
     (let ip = takeWhile is_digit s;
          r = dropWhile is_digit s;
          fp = (case r of [] \<Rightarrow> [] | c # r' \<Rightarrow> r')
      in if (r = [] \<or> (hd r = CHR ''.'' \<and> list_all is_digit fp)) \<and> (ip \<noteq> [] \<or> fp \<noteq> [])
         then Inr (real (digits_value 0 ip) + real (digits_value 0 fp) / 10 ^ length fp)
         else Inl ValueError)"

subsection \<open>The parsed entry and \<^verbatim>\<open>parse_log_line\<close>\<close>

record parsed =
  pool :: "string option"
  release :: "string option"
  upstream_statuses :: "string list"
  final_status :: "int option"
  upstream :: "string option"
  request_time :: "real option"
  upstream_response_time :: "string option"
  raw_line :: string

text \<open>
  The body of the \<^verbatim>\<open>try\<close>: each field by its own search, in the order of the
  source. The two conversions, \<^verbatim>\<open>int\<close> of the status and \<^verbatim>\<open>float\<close> of the
  request time, are the steps that can raise.
\<close>

definition parse_fields :: "string \<Rightarrow> py_error + parsed" where
  "parse_fields line =
     (let pool_match = re_search_class ''pool='' non_space line;
          pool_v = (case pool_match of
                      Some g \<Rightarrow> if g \<noteq> ''-'' then Some g else None
                    | None \<Rightarrow> None);
          release_match = re_search_class ''release='' non_space line;
          release_v = (case release_match of
                         Some g \<Rightarrow> if g \<noteq> ''-'' then Some g else None
                       | None \<Rightarrow> None);
          upstream_status_raw = re_search_class ''upstream_status='' non_space line;
          upstream_statuses_v = (case upstream_status_raw of
                                   Some raw \<Rightarrow> if raw \<noteq> [] \<and> raw \<noteq> ''-''
                                              then split_comma raw else []
                                 | None \<Rightarrow> []);
          status_match = re_search_status line
      in case (case status_match of
                 None \<Rightarrow> Inr None
               | Some g \<Rightarrow> (case py_int g of Inl e \<Rightarrow> Inl e | Inr n \<Rightarrow> Inr (Some n))) of
           Inl e \<Rightarrow> Inl e
         | Inr final_status_v \<Rightarrow>
            (let upstream_v = re_search_class ''upstream='' non_space line;
                 request_time_match = re_search_class ''request_time='' digit_or_dot line
             in case (case request_time_match of
                        None \<Rightarrow> Inr None
                      | Some g \<Rightarrow> (case py_float g of Inl e \<Rightarrow> Inl e
                                   | Inr x \<Rightarrow> Inr (Some x))) of
                  Inl e \<Rightarrow> Inl e
                | Inr request_time_v \<Rightarrow>
                    Inr \<lparr> pool = pool_v,
                          release = release_v,
                          upstream_statuses = upstream_statuses_v,
                          final_status = final_status_v,
                          upstream = upstream_v,
                          request_time = request_time_v,
                          upstream_response_time =
                            re_search_class ''upstream_response_time='' digit_dot_comma_space line,
                          raw_line = strip line \<rparr>))"

subsection \<open>What the watcher prints and posts\<close>

text \<open>
  An alert is kept as the data its message and fields are rendered from. The
  console block of \<^verbatim>\<open>send_slack_alert\<close> is one event; the call of
  \<^verbatim>\<open>requests.post\<close>, with the line printed about its outcome, is another.
  Timestamps inside a rendering are left out.
\<close>

datatype alert =
    Failover_alert string string
  | Error_rate_alert real nat nat
  | Recovery_alert string

datatype event =
    Print_parse_failed py_error
  | Print_baseline string
  | Print_failover_suppressed string string
  | Print_alert alert
  | Slack_post string string alert

text \<open>\<^verbatim>\<open>except Exception\<close>: the failure is printed and the result is \<^verbatim>\<open>None\<close>.\<close>

definition parse_log_line :: "string \<Rightarrow> event list \<times> parsed option" where
  "parse_log_line line =
     (case parse_fields line of
        Inl e \<Rightarrow> ([Print_parse_failed e], None)
      | Inr p \<Rightarrow> ([], Some p))"

subsection \<open>The watcher\<close>

text \<open>
  \<open>window_size\<close> is a natural number: with a negative \<^verbatim>\<open>WINDOW_SIZE\<close> the
  constructor raises in \<^verbatim>\<open>deque(maxlen=...)\<close> and there is no watcher.
\<close>

record LogWatcher =
  slack_webhook_url :: "string option"
  error_rate_threshold :: real
  window_size :: nat
  alert_cooldown_sec :: int
  maintenance_mode :: bool
  initial_active_pool :: string
  last_seen_pool :: "string option"
  request_window :: "bool list"
  last_alert_times :: "string \<Rightarrow> real option"

definition LogWatcher_init ::
  "string option \<Rightarrow> real \<Rightarrow> nat \<Rightarrow> int \<Rightarrow> bool \<Rightarrow> string \<Rightarrow> LogWatcher" where
  "LogWatcher_init url threshold wsize cooldown maint active =
     \<lparr> slack_webhook_url =
         (case url of
            None \<Rightarrow> None
          | Some u \<Rightarrow> if u = [] \<or> u = ''https://hooks.slack.com/services/YOUR/WEBHOOK/URL''
                      then None else Some u),
       error_rate_threshold = threshold,
       window_size = wsize,
       alert_cooldown_sec = cooldown,
       maintenance_mode = maint,
       initial_active_pool = active,
       last_seen_pool = None,
       request_window = [],
       last_alert_times = Map.empty \<rparr>"

text \<open>\<^verbatim>\<open>deque.append\<close> with \<^verbatim>\<open>maxlen\<close>: append on the right, then drop from the left when over.\<close>

definition deque_append :: "nat \<Rightarrow> 'a list \<Rightarrow> 'a \<Rightarrow> 'a list" where
  "deque_append maxlen d x = (let d' = d @ [x] in if length d' > maxlen then tl d' else d')"

definition send_slack_alert :: "LogWatcher \<Rightarrow> alert \<Rightarrow> string \<Rightarrow> event list" where
  "send_slack_alert self message color =
     Print_alert message #
     (case slack_webhook_url self of
        None \<Rightarrow> []
      | Some url \<Rightarrow> [Slack_post url color message])"

definition can_send_alert :: "LogWatcher \<Rightarrow> real \<Rightarrow> string \<Rightarrow> bool \<times> LogWatcher" where
  "can_send_alert self current_time alert_type =
     (let last_alert_time = (case last_alert_times self alert_type of
                               None \<Rightarrow> 0 | Some t \<Rightarrow> t)
      in if current_time - last_alert_time \<ge> real_of_int (alert_cooldown_sec self)
         then (True, self\<lparr>last_alert_times := (last_alert_times self)(alert_type \<mapsto> current_time)\<rparr>)
         else (False, self))"

definition send_failover_alert ::
  "LogWatcher \<Rightarrow> real \<Rightarrow> string \<Rightarrow> string \<Rightarrow> LogWatcher \<times> event list" where
  "send_failover_alert self now old_pool new_pool =
     (self\<lparr>last_alert_times := (last_alert_times self)(''failover'' \<mapsto> now)\<rparr>,
      send_slack_alert self (Failover_alert old_pool new_pool) ''warning'')"

definition send_error_rate_alert :: "LogWatcher \<Rightarrow> real \<Rightarrow> nat \<Rightarrow> nat \<Rightarrow> event list" where
  "send_error_rate_alert self error_rate error_count total_count =
     send_slack_alert self (Error_rate_alert error_rate error_count total_count) ''danger''"

definition send_recovery_alert :: "LogWatcher \<Rightarrow> real \<Rightarrow> LogWatcher \<times> event list" where
  "send_recovery_alert self now =
     (if last_seen_pool self = Some (initial_active_pool self) then
        (case can_send_alert self now ''recovery'' of
           (True, self') \<Rightarrow>
             (self', send_slack_alert self' (Recovery_alert (initial_active_pool self)) ''good'')
         | (False, self') \<Rightarrow> (self', []))
      else (self, []))"

definition check_failover ::
  "LogWatcher \<Rightarrow> real \<Rightarrow> string \<Rightarrow> bool \<times> LogWatcher \<times> event list" where
  "check_failover self now new_pool =
     (case last_seen_pool self of
        None \<Rightarrow> (False, self\<lparr>last_seen_pool := Some new_pool\<rparr>, [Print_baseline new_pool])
      | Some old_pool \<Rightarrow>
          if new_pool \<noteq> old_pool then
            (let self1 = self\<lparr>last_seen_pool := Some new_pool\<rparr>
             in if \<not> maintenance_mode self1 then
                  (case send_failover_alert self1 now old_pool new_pool of
                     (self2, out) \<Rightarrow> (True, self2, out))
                else (True, self1, [Print_failover_suppressed old_pool new_pool]))
          else (False, self, []))"

text \<open>
  The loop over the upstream statuses: a token that \<^verbatim>\<open>int\<close> rejects is skipped
  (\<^verbatim>\<open>except (ValueError, TypeError): continue\<close>), the first 5xx ends the loop.
\<close>

fun upstream_5xx :: "string list \<Rightarrow> bool" where
  "upstream_5xx [] = False"
| "upstream_5xx (status # rest) =
     (case py_int status of
        Inl e \<Rightarrow> upstream_5xx rest
      | Inr status_code \<Rightarrow>
          if 500 \<le> status_code \<and> status_code < 600 then True else upstream_5xx rest)"

definition has_5xx_error :: "parsed \<Rightarrow> bool" where
  "has_5xx_error p =
     (let h = upstream_5xx (upstream_statuses p)
      in if (case final_status p of
               None \<Rightarrow> False
             | Some fs \<Rightarrow> fs \<noteq> 0 \<and> 500 \<le> fs \<and> fs < 600)
         then True else h)"

definition check_error_rate :: "LogWatcher \<Rightarrow> real \<Rightarrow> parsed \<Rightarrow> LogWatcher \<times> event list" where
  "check_error_rate self now p =
     (let self1 = self\<lparr>request_window :=
                    deque_append (window_size self) (request_window self) (has_5xx_error p)\<rparr>;
          min_requests = max 10 (window_size self1 div 10)
      in if length (request_window self1) \<ge> min_requests then
           (let error_count = length (filter (\<lambda>b. b) (request_window self1));
                total_count = length (request_window self1);
                error_rate = double_value
                               (double_times_int
                                  (double_of_fraction (int error_count) (int total_count)) 100)
            in if error_rate > error_rate_threshold self1 then
                 (if \<not> maintenance_mode self1 then
                    (case can_send_alert self1 now ''error_rate'' of
                       (True, self2) \<Rightarrow>
                         (self2, send_error_rate_alert self2 error_rate error_count total_count)
                     | (False, self2) \<Rightarrow> (self2, []))
                  else (self1, []))
               else (self1, []))
         else (self1, []))"

subsection \<open>The ingestion loop of \<^verbatim>\<open>tail_log_file\<close>\<close>

text \<open>
  One pass of the loop body for one line. \<open>tf\<close> is the clock as
  \<^verbatim>\<open>send_failover_alert\<close> reads it, \<open>te\<close> the clock as \<^verbatim>\<open>can_send_alert\<close> reads it.
\<close>

definition process_line ::
  "LogWatcher \<Rightarrow> real \<Rightarrow> real \<Rightarrow> string \<Rightarrow> LogWatcher \<times> event list" where
  "process_line self tf te line =
     (case parse_log_line line of
        (out0, None) \<Rightarrow> (self, out0)
      | (out0, Some p) \<Rightarrow>
          (case pool p of
             None \<Rightarrow> (self, out0)
           | Some pl \<Rightarrow>
               if pl \<noteq> [] then
                 (case check_failover self tf pl of
                    (changed, self1, out1) \<Rightarrow>
                      (case check_error_rate self1 te p of
                         (self2, out2) \<Rightarrow> (self2, out0 @ out1 @ out2)))
               else (self, out0)))"

text \<open>The loop over the lines that \<^verbatim>\<open>tail\<close> has delivered so far, each with its clock readings.\<close>

fun tail_log_file :: "LogWatcher \<Rightarrow> (string \<times> real \<times> real) list \<Rightarrow> LogWatcher \<times> event list" where
  "tail_log_file self [] = (self, [])"
| "tail_log_file self ((line, tf, te) # rest) =
     (case process_line self tf te line of
        (self1, out1) \<Rightarrow>
          (case tail_log_file self1 rest of
             (self2, out2) \<Rightarrow> (self2, out1 @ out2)))"

subsection \<open>Example inputs\<close>

text \<open>
  A watcher with the default configuration and no webhook, the same one in
  maintenance mode, one that already tracks a pool, and a few log lines.
\<close>

definition watcher0 :: LogWatcher where
  "watcher0 = LogWatcher_init None 2 200 300 False ''blue''"

definition watcher_maint :: LogWatcher where
  "watcher_maint = LogWatcher_init None 2 200 300 True ''blue''"

definition tracking_blue :: LogWatcher where
  "tracking_blue = watcher0\<lparr>last_seen_pool := Some ''blue''\<rparr>"

definition five_errors :: LogWatcher where
  "five_errors = tracking_blue\<lparr>request_window := [True, True, True, True, True]\<rparr>"

definition retry_line :: string where
  "retry_line = [CHR 0x22] @ ''GET / HTTP/1.1'' @ [CHR 0x22]
                @ '' 200 pool=blue upstream_status=502,200''"

definition retry_entry :: parsed where
  "retry_entry = \<lparr> pool = Some ''blue'', release = None,
                   upstream_statuses = [''502'', ''200''], final_status = Some 200,
                   upstream = None, request_time = None, upstream_response_time = None,
                   raw_line = retry_line \<rparr>"

definition error_line :: string where
  "error_line = ''pool=blue upstream_status=500''"

definition watcher_119 :: LogWatcher where
  "watcher_119 = LogWatcher_init None 2 119 300 False ''blue''"

definition junk_entry :: parsed where
  "junk_entry = \<lparr> pool = Some ''blue'', release = None,
                  upstream_statuses = [''b2'', ''5xx'', ''-'', [], ''0x1f6''],
                  final_status = None,
                  upstream = None, request_time = None, upstream_response_time = None,
                  raw_line = [] \<rparr>"

definition long_token :: string where
  "long_token = replicate 4298 (CHR ''0'') @ ''500''"

text \<open>An event that belongs to a recovery alert: its console block or its post.\<close>

fun is_recovery_event :: "event \<Rightarrow> bool" where
  "is_recovery_event (Print_alert (Recovery_alert pl)) = True"
| "is_recovery_event (Slack_post url color (Recovery_alert pl)) = True"
| "is_recovery_event e = False"

section \<open>Properties\<close>

subsection \<open>Facts shared by the proofs\<close>

lemma check_error_rate_window:
  "request_window (fst (check_error_rate s now p))
     = deque_append (window_size s) (request_window s) (has_5xx_error p)"
  "window_size (fst (check_error_rate s now p)) = window_size s"
  "last_seen_pool (fst (check_error_rate s now p)) = last_seen_pool s"
  by (simp_all add: check_error_rate_def can_send_alert_def Let_def split: prod.splits)

lemma deque_append_length: "length d \<le> m \<Longrightarrow> length (deque_append m d x) \<le> m"
  by (auto simp: deque_append_def Let_def)

lemma deque_append_cases:
  "length d < m \<Longrightarrow> deque_append m d x = d @ [x]"
  "length d = m \<Longrightarrow> deque_append m d x = tl (d @ [x])"
  by (simp_all add: deque_append_def Let_def)

lemma check_failover_window:
  "request_window (fst (snd (check_failover s now p))) = request_window s"
  "window_size (fst (snd (check_failover s now p))) = window_size s"
  by (simp_all add: check_failover_def send_failover_alert_def Let_def split: option.splits)

text \<open>
  The loop body either leaves the watcher alone and emits only what the parser
  printed, or runs the two checks one after the other on a present pool.
\<close>

lemma process_line_cases:
  "process_line s tf te l = (s, fst (parse_log_line l))
   \<or> (\<exists>p pl. pl \<noteq> [] \<and> pool p = Some pl \<and> snd (parse_log_line l) = Some p
        \<and> process_line s tf te l
            = (fst (check_error_rate (fst (snd (check_failover s tf pl))) te p),
               fst (parse_log_line l) @ snd (snd (check_failover s tf pl))
               @ snd (check_error_rate (fst (snd (check_failover s tf pl))) te p)))"
  by (auto simp: process_line_def split: prod.splits option.splits)

lemma tail_log_file_step:
  "tail_log_file s ((l, tf, te) # rest)
     = (fst (tail_log_file (fst (process_line s tf te l)) rest),
        snd (process_line s tf te l) @ snd (tail_log_file (fst (process_line s tf te l)) rest))"
  by (simp split: prod.splits)

lemma parse_fields_pool:
  "parse_fields line = Inr p \<Longrightarrow>
   pool p = (case re_search_class ''pool='' non_space line of
               Some g \<Rightarrow> if g \<noteq> ''-'' then Some g else None
             | None \<Rightarrow> None)"
  by (auto simp: parse_fields_def Let_def split: sum.splits option.splits)

text \<open>
  The error rate is the double that Python computes: eleven errors in twenty samples
  give \<^verbatim>\<open>(11 / 20) * 100 = 55.00000000000001\<close>, above a threshold of 55, and 25 in
  200 give exactly 12.5.
\<close>

lemma error_rate_rounds_as_double:
  "double_times_int (double_of_fraction 11 20) 100 = (7740561859543041, - 47)"
  "55 < double_value (double_times_int (double_of_fraction 11 20) 100)"
  "double_value (double_times_int (double_of_fraction 25 200) 100) = 12.5"
  by code_simp+

subsection \<open>What \<^verbatim>\<open>int\<close> accepts\<close>

lemma digit_not_space: "is_digit c \<Longrightarrow> \<not> is_space c"
  by (auto simp: is_digit_def is_space_def Let_def)

lemma digit_not_int_space: "is_digit c \<Longrightarrow> \<not> is_int_space c"
  by (auto simp: is_digit_def is_int_space_def Let_def)

lemma digit_not_sign: "is_digit c \<Longrightarrow> c \<noteq> CHR ''-'' \<and> c \<noteq> CHR ''+'' \<and> c \<noteq> CHR ''_''"
  by (auto simp: is_digit_def Let_def)

lemma dropWhile_keeps: "c \<in> set xs \<Longrightarrow> \<not> P c \<Longrightarrow> c \<in> set (dropWhile P xs)"
  by (induction xs) auto

lemma int_strip_keeps: "c \<in> set s \<Longrightarrow> \<not> is_int_space c \<Longrightarrow> c \<in> set (int_strip s)"
  by (simp add: int_strip_def dropWhile_keeps)

lemma int_strip_subset: "set (int_strip s) \<subseteq> set s"
proof -
  have "set (dropWhile is_int_space (rev (dropWhile is_int_space s)))
          \<subseteq> set (rev (dropWhile is_int_space s))"
    by (auto dest: set_dropWhileD)
  also have "\<dots> \<subseteq> set s" by (auto dest: set_dropWhileD)
  finally show ?thesis by (simp add: int_strip_def)
qed

lemma int_strip_digits: "list_all is_digit tok \<Longrightarrow> int_strip tok = tok"
proof (cases tok)
  case Nil
  then show ?thesis by (simp add: int_strip_def)
next
  case (Cons c cs)
  assume d: "list_all is_digit tok"
  have h: "\<not> is_int_space (hd tok)" using d Cons by (simp add: digit_not_int_space)
  have "last tok \<in> set tok" using Cons by simp
  then have l: "\<not> is_int_space (last tok)"
    using d by (auto simp: list_all_iff digit_not_int_space)
  have 1: "dropWhile is_int_space tok = tok" using h Cons by simp
  have "hd (rev tok) = last tok" using Cons by (simp add: hd_rev)
  then have 2: "dropWhile is_int_space (rev tok) = rev tok"
    using l Cons by (cases "rev tok") auto
  show ?thesis by (simp add: int_strip_def 1 2)
qed

lemma digits_ok_chars: "digits_ok b \<Longrightarrow> c \<in> set b \<Longrightarrow> is_digit c \<or> c = CHR ''_''"
  by (induction b rule: digits_ok.induct) (auto split: if_splits)

lemma digits_ok_hd: "digits_ok b \<Longrightarrow> b \<noteq> [] \<and> is_digit (hd b)"
  by (induction b rule: digits_ok.induct) (auto split: if_splits)

lemma all_digits_ok: "tok \<noteq> [] \<Longrightarrow> list_all is_digit tok \<Longrightarrow> digits_ok tok"
  by (induction tok rule: digits_ok.induct) (auto dest: digit_not_sign)

lemma py_int_accepts:
  assumes "py_int tok = Inr n"
  shows "\<exists>body. set body \<subseteq> set tok \<and> digits_ok body
           \<and> (\<forall>c \<in> set (int_strip tok). c \<in> set body \<or> c = CHR ''-'' \<or> c = CHR ''+'')"
proof (cases "int_strip tok")
  case Nil
  then show ?thesis using assms by (simp add: py_int_def Let_def)
next
  case (Cons x r)
  let ?body = "if x = CHR ''-'' \<or> x = CHR ''+'' then r else x # r"
  have ok: "digits_ok ?body"
    using assms Cons by (auto simp: py_int_def Let_def split: if_splits)
  have sub: "set ?body \<subseteq> set tok"
    using int_strip_subset [of tok] Cons by auto
  have cov: "\<forall>c \<in> set (int_strip tok). c \<in> set ?body \<or> c = CHR ''-'' \<or> c = CHR ''+''"
    using Cons by auto
  show ?thesis using ok sub cov by blast
qed

lemma py_int_needs_digit: "\<forall>c \<in> set tok. \<not> is_digit c \<Longrightarrow> py_int tok = Inl ValueError"
proof (rule ccontr)
  assume nd: "\<forall>c \<in> set tok. \<not> is_digit c" and "py_int tok \<noteq> Inl ValueError"
  then obtain n where "py_int tok = Inr n"
    by (cases "py_int tok") (auto intro: py_error.exhaust)
  then obtain body where b: "set body \<subseteq> set tok" "digits_ok body"
    using py_int_accepts by blast
  have "hd body \<in> set body" "is_digit (hd body)" using digits_ok_hd [OF b(2)] by auto
  then show False using nd b(1) by blast
qed

lemma py_int_rejects_foreign:
  assumes "c \<in> set tok" "\<not> is_digit c" "c \<noteq> CHR ''_''" "c \<noteq> CHR ''+''" "c \<noteq> CHR ''-''"
          "\<not> is_int_space c"
  shows "py_int tok = Inl ValueError"
proof (rule ccontr)
  assume "py_int tok \<noteq> Inl ValueError"
  then obtain n where "py_int tok = Inr n"
    by (cases "py_int tok") (auto intro: py_error.exhaust)
  then obtain body where b: "digits_ok body"
      "\<forall>c \<in> set (int_strip tok). c \<in> set body \<or> c = CHR ''-'' \<or> c = CHR ''+''"
    using py_int_accepts by blast
  have "c \<in> set (int_strip tok)" using assms int_strip_keeps by blast
  then have "c \<in> set body" using b(2) assms by blast
  then show False using digits_ok_chars [OF b(1)] assms by blast
qed

lemma py_int_digits:
  assumes "tok \<noteq> []" "list_all is_digit tok"
  shows "py_int tok = (if length tok \<le> int_max_str_digits
                        then Inr (int (digits_value 0 tok)) else Inl ValueError)"
proof -
  obtain c cs where t: "tok = c # cs" using assms(1) by (cases tok) auto
  have c: "is_digit c" using assms(2) t by simp
  have f: "filter is_digit tok = tok" using assms(2) by (simp add: list_all_iff)
  show ?thesis
    using digit_not_sign [OF c] all_digits_ok [OF assms] f
    by (simp add: py_int_def int_strip_digits [OF assms(2)] t [symmetric] Let_def)
       (simp add: t)
qed

lemma long_token_facts:
  "long_token \<noteq> []" "list_all is_digit long_token" "length long_token = 4301"
  by (simp_all add: long_token_def list_all_iff is_digit_def)

subsection \<open>Failover detector\<close>

text \<open>
  C6. The first call of \<open>check_failover\<close>, with no pool tracked yet, makes the pool
  the baseline, prints the baseline line and reports no failover. A later call
  with a pool different from the tracked one returns \<open>True\<close>, tracks the new pool
  and names the old and the new pool in what it emits: the alert, or the
  suppressed line under maintenance mode. A call with the tracked pool returns
  \<open>False\<close>, emits nothing and leaves the watcher as it was.
\<close>

theorem check_failover_contract:
  "(last_seen_pool s = None \<longrightarrow>
      check_failover s now p = (False, s\<lparr>last_seen_pool := Some p\<rparr>, [Print_baseline p]))
   \<and> (last_seen_pool s = Some old \<and> p \<noteq> old \<longrightarrow>
      check_failover s now p =
        (True,
         (if maintenance_mode s then s\<lparr>last_seen_pool := Some p\<rparr>
          else s\<lparr>last_seen_pool := Some p,
                 last_alert_times := (last_alert_times s)(''failover'' \<mapsto> now)\<rparr>),
         (if maintenance_mode s then [Print_failover_suppressed old p]
          else Print_alert (Failover_alert old p) #
               (case slack_webhook_url s of
                  None \<Rightarrow> []
                | Some url \<Rightarrow> [Slack_post url ''warning'' (Failover_alert old p)]))))
   \<and> (last_seen_pool s = Some p \<longrightarrow> check_failover s now p = (False, s, []))"
  by (simp add: check_failover_def send_failover_alert_def send_slack_alert_def)

text \<open>The run of the specification: blue, blue, green.\<close>

theorem check_failover_contract_witness:
  "check_failover watcher0 0 ''blue'' = (False, tracking_blue, [Print_baseline ''blue''])
   \<and> check_failover tracking_blue 1 ''blue'' = (False, tracking_blue, [])
   \<and> fst (check_failover tracking_blue 2 ''green'')
   \<and> snd (snd (check_failover tracking_blue 2 ''green''))
       = [Print_alert (Failover_alert ''blue'' ''green'')]
   \<and> last_seen_pool (fst (snd (check_failover tracking_blue 2 ''green''))) = Some ''green''"
  using check_failover_contract [where s = watcher0 and now = 0 and p = "''blue''"]
        check_failover_contract [where s = tracking_blue and now = 1 and p = "''blue''"]
        check_failover_contract [where s = tracking_blue and now = 2 and p = "''green''"
                                   and old = "''blue''"]
  by (simp add: watcher0_def tracking_blue_def LogWatcher_init_def)

text \<open>
  C1. In the code a failover alert is not gated by the cooldown:
  \<open>check_failover\<close> calls \<open>send_failover_alert\<close> without asking
  \<open>can_send_alert\<close>, and the time stored under the key \<open>failover\<close> is never read.
  With a cooldown of 300 seconds, a failover alert fires at time 1700000000
  (blue to green) and a second one fires 100 seconds later (green to blue).
\<close>

theorem failover_alert_not_cooldown_gated:
  "alert_cooldown_sec watcher0 = 300
   \<and> last_alert_times
        (fst (tail_log_file watcher0
                [(''pool=blue'', 1700000000, 1700000000),
                 (''pool=green'', 1700000000, 1700000000)])) ''failover'' = Some 1700000000
   \<and> snd (tail_log_file watcher0
            [(''pool=blue'', 1700000000, 1700000000),
             (''pool=green'', 1700000000, 1700000000),
             (''pool=blue'', 1700000100, 1700000100)])
       = [Print_baseline ''blue'',
          Print_alert (Failover_alert ''blue'' ''green''),
          Print_alert (Failover_alert ''green'' ''blue'')]"
  by code_simp

subsection \<open>Cooldown registry\<close>

text \<open>
  C8, as the claim states it, fails: a key that is absent is read as last fired at
  time 0, so with a cooldown longer than the clock reading the first attempt of a
  kind that never fired is suppressed.
\<close>

theorem absent_key_not_eligible:
  "last_alert_times (LogWatcher_init None 2 200 2000000000 False ''blue'') ''error_rate'' = None
   \<and> \<not> fst (can_send_alert (LogWatcher_init None 2 200 2000000000 False ''blue'')
               1700000000 ''error_rate'')"
  by (simp add: can_send_alert_def LogWatcher_init_def)

text \<open>
  C8, amended. An attempt of \<open>can_send_alert\<close> for a kind succeeds exactly when the
  clock minus the time the kind last fired, read as 0 for an absent key, is at least
  the cooldown; so a kind that never fired is eligible exactly when the clock has
  reached the cooldown. On success the time of the kind becomes the clock, on
  suppression the watcher is unchanged, and in both cases the time of every other
  kind stays as it was.
\<close>

theorem can_send_alert_cooldown:
  "(fst (can_send_alert s now k) \<longleftrightarrow>
      now - (case last_alert_times s k of None \<Rightarrow> 0 | Some t \<Rightarrow> t)
        \<ge> real_of_int (alert_cooldown_sec s))
   \<and> (last_alert_times s k = None \<longrightarrow>
        (fst (can_send_alert s now k) \<longleftrightarrow> real_of_int (alert_cooldown_sec s) \<le> now))
   \<and> (fst (can_send_alert s now k) \<longrightarrow>
        snd (can_send_alert s now k) = s\<lparr>last_alert_times := (last_alert_times s)(k \<mapsto> now)\<rparr>)
   \<and> (\<not> fst (can_send_alert s now k) \<longrightarrow> snd (can_send_alert s now k) = s)
   \<and> (k' \<noteq> k \<longrightarrow>
        last_alert_times (snd (can_send_alert s now k)) k' = last_alert_times s k')"
  by (simp add: can_send_alert_def Let_def)

theorem can_send_alert_cooldown_witness:
  "fst (can_send_alert watcher0 1700000000 ''error_rate'')
   \<and> last_alert_times (snd (can_send_alert watcher0 1700000000 ''error_rate'')) ''error_rate''
       = Some 1700000000
   \<and> last_alert_times (snd (can_send_alert watcher0 1700000000 ''error_rate'')) ''failover'' = None
   \<and> \<not> fst (can_send_alert (snd (can_send_alert watcher0 1700000000 ''error_rate''))
               1700000100 ''error_rate'')
   \<and> snd (can_send_alert (snd (can_send_alert watcher0 1700000000 ''error_rate''))
               1700000100 ''error_rate'')
       = snd (can_send_alert watcher0 1700000000 ''error_rate'')"
  using can_send_alert_cooldown [where s = watcher0 and now = 1700000000 and k = "''error_rate''"
                                   and k' = "''failover''"]
        can_send_alert_cooldown [where s = "snd (can_send_alert watcher0 1700000000 ''error_rate'')"
                                   and now = 1700000100 and k = "''error_rate''"
                                   and k' = "''failover''"]
  by (simp add: watcher0_def LogWatcher_init_def)

subsection \<open>Error-rate monitor\<close>

text \<open>
  What holds of the floor as the code computes it, with Python's \<^verbatim>\<open>//\<close>: while
  the window, after the new sample is appended, holds fewer than
  \<open>max 10 (window_size div 10)\<close> samples, \<open>check_error_rate\<close> emits nothing and
  records no alert time, whatever the samples are.
\<close>

lemma no_alert_below_integer_floor:
  "length (request_window (fst (check_error_rate s now p))) < max 10 (window_size s div 10) \<Longrightarrow>
   snd (check_error_rate s now p) = []
   \<and> last_alert_times (fst (check_error_rate s now p)) = last_alert_times s"
proof -
  assume a: "length (request_window (fst (check_error_rate s now p)))
               < max 10 (window_size s div 10)"
  have len: "\<not> max 10 (window_size s div 10)
      \<le> length (deque_append (window_size s) (request_window s) (has_5xx_error p))"
    using a by (simp only: check_error_rate_window not_le)
  show ?thesis using len by (simp add: check_error_rate_def Let_def del: max.bounded_iff)
qed

text \<open>
  C5. The code reports a breach below a tenth of the capacity. Its comment asks for
  a window that is at least 10 percent full, and it computes the floor as
  \<^verbatim>\<open>max(10, self.window_size // 10)\<close>, which rounds the tenth down. With a capacity
  of 119 the floor is 11: the eleventh error line is fewer than
  \<open>max 10 (119 / 10) = 11.9\<close> samples, a window 9.2 percent full, and the alert is
  raised.
\<close>

theorem breach_below_tenth_of_capacity:
  "window_size watcher_119 = 119
   \<and> (11 :: real) < max 10 (119 / 10)
   \<and> (case process_line
             (fst (tail_log_file watcher_119
                     (replicate 10 (error_line, 1700000000, 1700000000))))
             1700000050 1700000050 error_line of
        (s, out) \<Rightarrow> length (request_window s) = 11
                     \<and> out = [Print_alert (Error_rate_alert 100 11 11)])"
  by code_simp

lemma process_line_window_size: "window_size (fst (process_line s tf te l)) = window_size s"
  using process_line_cases [of s tf te l]
  by (auto simp: check_error_rate_window check_failover_window)

lemma process_line_window_bound:
  assumes "length (request_window s) \<le> window_size s"
  shows "length (request_window (fst (process_line s tf te l))) \<le> window_size s"
  using process_line_cases [of s tf te l] assms
  by (auto simp: check_error_rate_window check_failover_window deque_append_length)

lemma tail_log_file_window:
  "length (request_window s) \<le> window_size s \<Longrightarrow>
   length (request_window (fst (tail_log_file s inputs))) \<le> window_size s
   \<and> window_size (fst (tail_log_file s inputs)) = window_size s"
proof (induction inputs arbitrary: s)
  case Nil
  then show ?case by simp
next
  case (Cons x xs)
  obtain l tf te where x: "x = (l, tf, te)" by (cases x) auto
  let ?s1 = "fst (process_line s tf te l)"
  have b: "length (request_window ?s1) \<le> window_size ?s1"
    using process_line_window_bound [OF Cons.prems] by (simp add: process_line_window_size)
  have "fst (tail_log_file s (x # xs)) = fst (tail_log_file ?s1 xs)"
    by (simp add: x split: prod.splits)
  then show ?case
    using Cons.IH [OF b] by (simp add: process_line_window_size)
qed

text \<open>
  C7. The window never holds more samples than its capacity: from the initial
  watcher after any lines, and from any watcher that respects the bound. One call of
  \<open>check_error_rate\<close> appends the new sample on the right when there is room and,
  when the window is full, also drops the leftmost sample, the oldest one, and no
  other.
\<close>

theorem window_bounded_fifo:
  "length (request_window (fst (tail_log_file (LogWatcher_init url thr cap cd mm act) inputs)))
     \<le> cap
   \<and> (length (request_window s) \<le> window_size s \<longrightarrow>
        length (request_window (fst (tail_log_file s inputs))) \<le> window_size s
        \<and> length (request_window (fst (check_error_rate s now p))) \<le> window_size s)
   \<and> (length (request_window s) < window_size s \<longrightarrow>
        request_window (fst (check_error_rate s now p)) = request_window s @ [has_5xx_error p])
   \<and> (length (request_window s) = window_size s \<and> 0 < window_size s \<longrightarrow>
        request_window (fst (check_error_rate s now p))
          = tl (request_window s) @ [has_5xx_error p])
   \<and> (window_size s = 0 \<and> request_window s = [] \<longrightarrow>
        request_window (fst (check_error_rate s now p)) = [])"
proof -
  have i: "length (request_window (LogWatcher_init url thr cap cd mm act))
             \<le> window_size (LogWatcher_init url thr cap cd mm act)"
    by (simp add: LogWatcher_init_def)
  have c: "window_size (LogWatcher_init url thr cap cd mm act) = cap"
    by (simp add: LogWatcher_init_def)
  have a: "length (request_window
             (fst (tail_log_file (LogWatcher_init url thr cap cd mm act) inputs))) \<le> cap"
    using tail_log_file_window [OF i, of inputs] c by simp
  have f: "length (request_window s) = window_size s \<and> 0 < window_size s \<longrightarrow>
        request_window (fst (check_error_rate s now p))
          = tl (request_window s) @ [has_5xx_error p]"
    by (cases "request_window s") (auto simp: check_error_rate_window deque_append_cases)
  have z: "window_size s = 0 \<and> request_window s = [] \<longrightarrow>
        request_window (fst (check_error_rate s now p)) = []"
    by (simp add: check_error_rate_window deque_append_def)
  show ?thesis
    using a f z tail_log_file_window [of s inputs]
    by (simp add: check_error_rate_window deque_append_length deque_append_cases)
qed

text \<open>
  A window of capacity 3 that holds \<open>[True, False, False]\<close>: the next sample pushes
  the \<open>True\<close> out; and a window of five samples in a capacity of 200 just grows.
\<close>

theorem window_bounded_fifo_witness:
  "request_window (fst (check_error_rate
       (tracking_blue\<lparr>window_size := 3, request_window := [True, False, False]\<rparr>)
       1700000000 retry_entry)) = [False, False, True]
   \<and> request_window (fst (check_error_rate five_errors 1700000000 retry_entry))
       = [True, True, True, True, True, True]
   \<and> length (request_window (fst (tail_log_file five_errors
               [(error_line, 1700000000, 1700000000)]))) \<le> 200"
proof -
  have e: "has_5xx_error retry_entry" by code_simp
  show ?thesis
    using e
      window_bounded_fifo [where s = "tracking_blue\<lparr>window_size := 3,
                                        request_window := [True, False, False]\<rparr>"
                             and now = 1700000000 and p = retry_entry]
      window_bounded_fifo [where s = five_errors and now = 1700000000 and p = retry_entry
                             and inputs = "[(error_line, 1700000000, 1700000000)]"]
    by (simp add: five_errors_def tracking_blue_def watcher0_def LogWatcher_init_def)
qed

lemma upstream_5xx_iff:
  "upstream_5xx toks \<longleftrightarrow> (\<exists>tok \<in> set toks. \<exists>n. py_int tok = Inr n \<and> 500 \<le> n \<and> n < 600)"
  by (induction toks) (auto split: sum.splits)

text \<open>
  C4. The flag that \<open>check_error_rate\<close> appends to the window is true exactly when
  some upstream status token is accepted by \<^verbatim>\<open>int\<close> with a value from 500 up to
  599, or the final status is present with such a value. What \<^verbatim>\<open>int\<close> accepts is
  made explicit: a token of digits only, no more than 4300 of them, has its decimal
  value; a longer one, a token without any digit (the empty token among them) and a
  token with a character that is no digit, underscore, sign or whitespace are all
  rejected. So an entry whose tokens are all of the rejected kinds, with no final
  status, is no error, and an entry with the tokens 502 and 200 and the final status
  200 is one.
\<close>

theorem error_classification:
  "(has_5xx_error p \<longleftrightarrow>
      (\<exists>tok \<in> set (upstream_statuses p). \<exists>n. py_int tok = Inr n \<and> 500 \<le> n \<and> n < 600)
      \<or> (\<exists>fs. final_status p = Some fs \<and> 500 \<le> fs \<and> fs < 600))
   \<and> (t \<noteq> [] \<and> list_all is_digit t \<and> length t \<le> 4300 \<longrightarrow>
        py_int t = Inr (int (digits_value 0 t)))
   \<and> (list_all is_digit t \<and> 4300 < length t \<longrightarrow> py_int t = Inl ValueError)
   \<and> ((\<forall>c \<in> set t. \<not> is_digit c) \<longrightarrow> py_int t = Inl ValueError)
   \<and> ((\<exists>c \<in> set t. \<not> is_digit c \<and> c \<noteq> CHR ''_'' \<and> c \<noteq> CHR ''+'' \<and> c \<noteq> CHR ''-''
                     \<and> \<not> is_int_space c) \<longrightarrow> py_int t = Inl ValueError)
   \<and> ((\<forall>tok \<in> set (upstream_statuses p).
          (\<forall>c \<in> set tok. \<not> is_digit c)
          \<or> (\<exists>c \<in> set tok. \<not> is_digit c \<and> c \<noteq> CHR ''_'' \<and> c \<noteq> CHR ''+'' \<and> c \<noteq> CHR ''-''
                            \<and> \<not> is_int_space c)
          \<or> (list_all is_digit tok \<and> 4300 < length tok))
        \<and> final_status p = None \<longrightarrow> \<not> has_5xx_error p)
   \<and> (upstream_statuses p = [''502'', ''200''] \<and> final_status p = Some 200 \<longrightarrow> has_5xx_error p)
   \<and> request_window (fst (check_error_rate s now p))
       = deque_append (window_size s) (request_window s) (has_5xx_error p)"
proof -
  have a: "has_5xx_error p \<longleftrightarrow>
      (\<exists>tok \<in> set (upstream_statuses p). \<exists>n. py_int tok = Inr n \<and> 500 \<le> n \<and> n < 600)
      \<or> (\<exists>fs. final_status p = Some fs \<and> 500 \<le> fs \<and> fs < 600)"
    unfolding has_5xx_error_def Let_def upstream_5xx_iff
    by (cases "final_status p") auto
  have d: "t \<noteq> [] \<and> list_all is_digit t \<and> length t \<le> 4300 \<longrightarrow>
        py_int t = Inr (int (digits_value 0 t))"
    using py_int_digits [of t] by (simp add: int_max_str_digits_def)
  have l: "list_all is_digit tok \<and> 4300 < length tok \<longrightarrow> py_int tok = Inl ValueError" for tok
    using py_int_digits [of tok] by (cases "tok = []") (auto simp: int_max_str_digits_def)
  have n: "(\<forall>c \<in> set tok. \<not> is_digit c) \<longrightarrow> py_int tok = Inl ValueError" for tok
    using py_int_needs_digit [of tok] by blast
  have f: "(\<exists>c \<in> set tok. \<not> is_digit c \<and> c \<noteq> CHR ''_'' \<and> c \<noteq> CHR ''+'' \<and> c \<noteq> CHR ''-''
                     \<and> \<not> is_int_space c) \<longrightarrow> py_int tok = Inl ValueError" for tok
    using py_int_rejects_foreign [of _ tok] by blast
  have j: "(\<forall>tok \<in> set (upstream_statuses p).
          (\<forall>c \<in> set tok. \<not> is_digit c)
          \<or> (\<exists>c \<in> set tok. \<not> is_digit c \<and> c \<noteq> CHR ''_'' \<and> c \<noteq> CHR ''+'' \<and> c \<noteq> CHR ''-''
                            \<and> \<not> is_int_space c)
          \<or> (list_all is_digit tok \<and> 4300 < length tok))
        \<and> final_status p = None \<longrightarrow> \<not> has_5xx_error p"
  proof (intro impI notI, elim conjE)
    assume r: "\<forall>tok \<in> set (upstream_statuses p).
          (\<forall>c \<in> set tok. \<not> is_digit c)
          \<or> (\<exists>c \<in> set tok. \<not> is_digit c \<and> c \<noteq> CHR ''_'' \<and> c \<noteq> CHR ''+'' \<and> c \<noteq> CHR ''-''
                            \<and> \<not> is_int_space c)
          \<or> (list_all is_digit tok \<and> 4300 < length tok)"
      and fs: "final_status p = None" and e: "has_5xx_error p"
    obtain tok m where tk: "tok \<in> set (upstream_statuses p)" "py_int tok = Inr m"
      using a e fs by auto
    have "py_int tok = Inl ValueError"
      using r tk(1) l [of tok] n [of tok] f [of tok] by blast
    then show False using tk(2) by simp
  qed
  have b: "py_int ''502'' = Inr 502" by code_simp
  have c: "upstream_statuses p = [''502'', ''200''] \<and> final_status p = Some 200
             \<longrightarrow> has_5xx_error p"
    using a b by auto
  show ?thesis
    using a d l [of t] n [of t] f [of t] j c by (simp add: check_error_rate_window)
qed

text \<open>
  The line of the specification, parsed: statuses 502 then 200, final status 200. And
  an entry of tokens that \<^verbatim>\<open>int\<close> rejects, and a token of 4301 digits that reads
  500: neither counts.
\<close>

theorem error_classification_witness:
  "parse_log_line retry_line = ([], Some retry_entry)
   \<and> upstream_statuses retry_entry = [''502'', ''200'']
   \<and> final_status retry_entry = Some 200
   \<and> has_5xx_error retry_entry
   \<and> py_int ''502'' = Inr 502
   \<and> upstream_statuses junk_entry = [''b2'', ''5xx'', ''-'', [], ''0x1f6'']
   \<and> \<not> has_5xx_error junk_entry
   \<and> py_int ''b2'' = Inl ValueError
   \<and> py_int [] = Inl ValueError
   \<and> length long_token = 4301
   \<and> py_int long_token = Inl ValueError
   \<and> \<not> has_5xx_error (junk_entry\<lparr>upstream_statuses := [long_token]\<rparr>)"
proof -
  have e: "parse_log_line retry_line = ([], Some retry_entry)" by code_simp
  have u: "upstream_statuses retry_entry = [''502'', ''200'']
           \<and> final_status retry_entry = Some 200"
    by (simp add: retry_entry_def)
  have v: "''502'' \<noteq> [] \<and> list_all is_digit ''502'' \<and> length ''502'' \<le> 4300"
    by (simp add: is_digit_def)
  have dv: "int (digits_value 0 ''502'') = 502" by (simp add: digit_val_def)
  have ju: "upstream_statuses junk_entry = [''b2'', ''5xx'', ''-'', [], ''0x1f6'']
            \<and> final_status junk_entry = None"
    by (simp add: junk_entry_def)
  have jh: "\<forall>tok \<in> set (upstream_statuses junk_entry).
          (\<forall>c \<in> set tok. \<not> is_digit c)
          \<or> (\<exists>c \<in> set tok. \<not> is_digit c \<and> c \<noteq> CHR ''_'' \<and> c \<noteq> CHR ''+'' \<and> c \<noteq> CHR ''-''
                            \<and> \<not> is_int_space c)
          \<or> (list_all is_digit tok \<and> 4300 < length tok)"
    by (simp add: junk_entry_def is_digit_def is_int_space_def)
  have b2: "\<exists>c \<in> set ''b2''. \<not> is_digit c \<and> c \<noteq> CHR ''_'' \<and> c \<noteq> CHR ''+'' \<and> c \<noteq> CHR ''-''
                            \<and> \<not> is_int_space c"
    by (simp add: is_digit_def is_int_space_def)
  have em: "\<forall>c \<in> set ([] :: string). \<not> is_digit c" by simp
  have lt: "list_all is_digit long_token \<and> 4300 < length long_token"
    using long_token_facts by simp
  have lh: "\<forall>tok \<in> set (upstream_statuses (junk_entry\<lparr>upstream_statuses := [long_token]\<rparr>)).
          (\<forall>c \<in> set tok. \<not> is_digit c)
          \<or> (\<exists>c \<in> set tok. \<not> is_digit c \<and> c \<noteq> CHR ''_'' \<and> c \<noteq> CHR ''+'' \<and> c \<noteq> CHR ''-''
                            \<and> \<not> is_int_space c)
          \<or> (list_all is_digit tok \<and> 4300 < length tok)"
    using lt by simp
  have lf: "final_status (junk_entry\<lparr>upstream_statuses := [long_token]\<rparr>) = None"
    by (simp add: junk_entry_def)
  have r1: "has_5xx_error retry_entry \<and> py_int ''502'' = Inr 502"
    using u v dv error_classification [where p = retry_entry and t = "''502''"] by simp
  have r2: "\<not> has_5xx_error junk_entry \<and> py_int ''b2'' = Inl ValueError"
    using ju jh b2 error_classification [where p = junk_entry and t = "''b2''"] by blast
  have r3: "py_int [] = Inl ValueError"
    using em error_classification [where t = "[]"] by blast
  have r4: "py_int long_token = Inl ValueError
            \<and> \<not> has_5xx_error (junk_entry\<lparr>upstream_statuses := [long_token]\<rparr>)"
    using lt lh lf
      error_classification [where p = "junk_entry\<lparr>upstream_statuses := [long_token]\<rparr>"
                              and t = long_token]
    by blast
  show ?thesis using e u ju r1 r2 r3 r4 long_token_facts(3) by simp
qed

text \<open>
  C2. Under maintenance mode the code prints nothing for an error rate over the
  threshold. The twentieth error line in a window of capacity 200 meets the floor of
  20 samples with a rate of 100 percent: in maintenance mode nothing at all is
  emitted and no time is stored under \<open>error_rate\<close>, while the same lines outside
  maintenance mode raise the alert.
\<close>

theorem maintenance_error_rate_prints_nothing:
  "maintenance_mode watcher_maint
   \<and> (case process_line
             (fst (tail_log_file watcher_maint
                     (replicate 19 (error_line, 1700000000, 1700000000))))
             1700000050 1700000050 error_line of
        (s, out) \<Rightarrow> request_window s = replicate 20 True \<and> out = []
                     \<and> last_alert_times s ''error_rate'' = None)
   \<and> snd (process_line
            (fst (tail_log_file watcher0
                    (replicate 19 (error_line, 1700000000, 1700000000))))
            1700000050 1700000050 error_line)
       = [Print_alert (Error_rate_alert 100 20 20)]"
  by code_simp

subsection \<open>Ingestion loop\<close>

text \<open>
  C9. When the line has no match for \<^verbatim>\<open>pool=(\S+)\<close>, or the match is \<open>-\<close>, the loop
  body returns the watcher it was given: the tracked pool, the window and all else
  are unchanged, and the only output is what the parser printed.
\<close>

theorem absent_pool_no_state_change:
  "re_search_class ''pool='' non_space line = None
   \<or> re_search_class ''pool='' non_space line = Some ''-'' \<Longrightarrow>
   fst (process_line s tf te line) = s
   \<and> snd (process_line s tf te line) = fst (parse_log_line line)"
proof -
  assume a: "re_search_class ''pool='' non_space line = None
   \<or> re_search_class ''pool='' non_space line = Some ''-''"
  show ?thesis
  proof (cases "parse_fields line")
    case (Inl e)
    then show ?thesis by (simp add: process_line_def parse_log_line_def)
  next
    case (Inr p)
    have "pool p = None" using parse_fields_pool [OF Inr] a by auto
    then show ?thesis using Inr by (simp add: process_line_def parse_log_line_def)
  qed
qed

theorem absent_pool_no_state_change_witness:
  "re_search_class ''pool='' non_space ''pool=- upstream_status=500'' = Some ''-''
   \<and> process_line five_errors 1700000000 1700000000 ''pool=- upstream_status=500''
       = (five_errors, [])
   \<and> re_search_class ''pool='' non_space ''upstream_status=500'' = None
   \<and> process_line five_errors 1700000000 1700000000 ''upstream_status=500''
       = (five_errors, [])"
proof -
  have h1: "re_search_class ''pool='' non_space ''pool=- upstream_status=500'' = Some ''-''"
    by code_simp
  have h2: "re_search_class ''pool='' non_space ''upstream_status=500'' = None"
    by code_simp
  have o1: "fst (parse_log_line ''pool=- upstream_status=500'') = []" by code_simp
  have o2: "fst (parse_log_line ''upstream_status=500'') = []" by code_simp
  have r1: "fst (process_line five_errors 1700000000 1700000000 ''pool=- upstream_status=500'')
              = five_errors
            \<and> snd (process_line five_errors 1700000000 1700000000 ''pool=- upstream_status=500'')
              = fst (parse_log_line ''pool=- upstream_status=500'')"
    using h1 by (intro absent_pool_no_state_change) simp
  have r2: "fst (process_line five_errors 1700000000 1700000000 ''upstream_status=500'')
              = five_errors
            \<and> snd (process_line five_errors 1700000000 1700000000 ''upstream_status=500'')
              = fst (parse_log_line ''upstream_status=500'')"
    using h2 by (intro absent_pool_no_state_change) simp
  show ?thesis using h1 h2 o1 o2 r1 r2 by (simp add: prod_eq_iff)
qed

lemma send_slack_alert_recovery:
  "filter is_recovery_event (send_slack_alert s (Failover_alert a b) c) = []"
  "filter is_recovery_event (send_slack_alert s (Error_rate_alert r n m) c) = []"
  by (simp_all add: send_slack_alert_def split: option.splits)

lemma check_failover_recovery:
  "filter is_recovery_event (snd (snd (check_failover s now p))) = []"
  "last_alert_times (fst (snd (check_failover s now p))) ''recovery''
     = last_alert_times s ''recovery''"
  by (simp_all add: check_failover_def send_failover_alert_def send_slack_alert_recovery Let_def
        split: option.splits)

lemma check_error_rate_recovery:
  "filter is_recovery_event (snd (check_error_rate s now p)) = []"
  "last_alert_times (fst (check_error_rate s now p)) ''recovery''
     = last_alert_times s ''recovery''"
  by (simp_all add: check_error_rate_def can_send_alert_def send_error_rate_alert_def
        send_slack_alert_recovery Let_def split: prod.splits)

lemma parse_log_line_recovery: "filter is_recovery_event (fst (parse_log_line l)) = []"
  by (simp add: parse_log_line_def split: sum.splits)

lemma process_line_recovery:
  "filter is_recovery_event (snd (process_line s tf te l)) = []"
  "last_alert_times (fst (process_line s tf te l)) ''recovery''
     = last_alert_times s ''recovery''"
  using process_line_cases [of s tf te l]
  by (auto simp: parse_log_line_recovery check_failover_recovery check_error_rate_recovery)

lemma tail_log_file_recovery:
  "filter is_recovery_event (snd (tail_log_file s inputs)) = []
   \<and> last_alert_times (fst (tail_log_file s inputs)) ''recovery''
       = last_alert_times s ''recovery''"
proof (induction inputs arbitrary: s)
  case Nil
  then show ?case by simp
next
  case (Cons x xs)
  obtain l tf te where x: "x = (l, tf, te)" by (cases x) auto
  show ?case
    unfolding x tail_log_file_step
    using Cons.IH [of "fst (process_line s tf te l)"]
    by (simp add: process_line_recovery)
qed

text \<open>
  C3. Whatever lines are ingested, the loop emits no event of a recovery alert and
  leaves the time stored under \<open>recovery\<close> as it was: the body calls
  \<open>check_failover\<close> and \<open>check_error_rate\<close> only. \<open>send_recovery_alert\<close>, which no
  method calls, emits something only when the tracked pool is the configured primary
  pool and the cooldown of the key \<open>recovery\<close> lets it through.
\<close>

theorem ingestion_never_recovery:
  "filter is_recovery_event (snd (tail_log_file s inputs)) = []
   \<and> last_alert_times (fst (tail_log_file s inputs)) ''recovery''
       = last_alert_times s ''recovery''
   \<and> (snd (send_recovery_alert s now) \<noteq> [] \<longrightarrow>
        last_seen_pool s = Some (initial_active_pool s)
        \<and> fst (can_send_alert s now ''recovery''))"
proof -
  have r: "snd (send_recovery_alert s now) \<noteq> [] \<longrightarrow>
        last_seen_pool s = Some (initial_active_pool s)
        \<and> fst (can_send_alert s now ''recovery'')"
    by (auto simp: send_recovery_alert_def split: if_splits prod.splits bool.splits)
  show ?thesis using r tail_log_file_recovery [of s inputs] by simp
qed

text \<open>
  Traffic leaves the primary pool and comes back: the loop emits two failover
  alerts and nothing of a recovery, although \<open>send_recovery_alert\<close> would fire there.
\<close>

theorem ingestion_never_recovery_witness:
  "snd (send_recovery_alert tracking_blue 1700000000) = [Print_alert (Recovery_alert ''blue'')]
   \<and> last_seen_pool tracking_blue = Some (initial_active_pool tracking_blue)
   \<and> fst (can_send_alert tracking_blue 1700000000 ''recovery'')
   \<and> filter is_recovery_event
        (snd (tail_log_file tracking_blue
                [(''pool=green'', 1700000000, 1700000000),
                 (''pool=blue'', 1700000400, 1700000400)])) = []"
proof -
  have e: "snd (send_recovery_alert tracking_blue 1700000000)
             = [Print_alert (Recovery_alert ''blue'')]"
    by code_simp
  have n: "snd (send_recovery_alert tracking_blue 1700000000) \<noteq> []"
    using e by simp
  show ?thesis
    using e n
      ingestion_never_recovery [where s = tracking_blue and now = 1700000000
          and inputs = "[(''pool=green'', 1700000000, 1700000000),
                         (''pool=blue'', 1700000400, 1700000400)]"]
    by simp
qed

subsection \<open>Entry parser\<close>

lemma re_search_status_digits:
  "re_search_status l = Some g \<Longrightarrow>
   \<exists>d1 d2 d3. g = [d1, d2, d3] \<and> is_digit d1 \<and> is_digit d2 \<and> is_digit d3"
  by (induction l rule: re_search_status.induct)
     (auto split: if_splits list.splits)

lemma py_int_three_digits:
  assumes "is_digit d1" "is_digit d2" "is_digit d3"
  shows "\<exists>n. py_int [d1, d2, d3] = Inr n"
  using assms py_int_digits [of "[d1, d2, d3]"]
  by (simp add: int_max_str_digits_def)

lemma status_int_never_raises:
  "re_search_status l = Some g \<Longrightarrow> \<exists>n. py_int g = Inr n"
  using re_search_status_digits py_int_three_digits by blast

lemma parse_fields_raises_iff:
  "(\<exists>e. parse_fields line = Inl e) \<longleftrightarrow>
   (\<exists>tok. re_search_class ''request_time='' digit_or_dot line = Some tok
          \<and> (\<exists>e. py_float tok = Inl e))"
proof (cases "re_search_status line")
  case None
  then show ?thesis
    by (auto simp: parse_fields_def Let_def split: option.splits sum.splits)
next
  case (Some g)
  then obtain n where "py_int g = Inr n" using status_int_never_raises by blast
  then show ?thesis using Some
    by (auto simp: parse_fields_def Let_def split: option.splits sum.splits)
qed

lemma parse_fields_absent:
  assumes "parse_fields line = Inr p"
  shows "(re_search_class ''pool='' non_space line = None \<longrightarrow> pool p = None)
   \<and> (re_search_class ''release='' non_space line = None \<longrightarrow> release p = None)
   \<and> (re_search_class ''upstream_status='' non_space line = None \<longrightarrow> upstream_statuses p = [])
   \<and> (re_search_status line = None \<longrightarrow> final_status p = None)
   \<and> (re_search_class ''upstream='' non_space line = None \<longrightarrow> upstream p = None)
   \<and> (re_search_class ''request_time='' digit_or_dot line = None \<longrightarrow> request_time p = None)
   \<and> (re_search_class ''upstream_response_time='' digit_dot_comma_space line = None
        \<longrightarrow> upstream_response_time p = None)"
  using assms
  by (auto simp: parse_fields_def Let_def split: option.splits sum.splits)

text \<open>
  C10. \<open>parse_log_line\<close> returns \<^verbatim>\<open>None\<close> exactly when the body of its \<^verbatim>\<open>try\<close>
  raises, and that happens exactly when the request time was captured and
  \<^verbatim>\<open>float\<close> rejects it (\<^verbatim>\<open>int\<close> of three digits cannot fail). A pattern without a
  match leaves its field absent in the entry that is returned. An exception never
  leaves the parser: the failure is printed, and the loop body goes on with the
  watcher unchanged.
\<close>

theorem parse_log_line_defensive:
  "(snd (parse_log_line line) = None \<longleftrightarrow> (\<exists>e. parse_fields line = Inl e))
   \<and> ((\<exists>e. parse_fields line = Inl e) \<longleftrightarrow>
        (\<exists>tok. re_search_class ''request_time='' digit_or_dot line = Some tok
               \<and> (\<exists>e. py_float tok = Inl e)))
   \<and> (snd (parse_log_line line) = Some p \<longrightarrow>
        (re_search_class ''pool='' non_space line = None \<longrightarrow> pool p = None)
        \<and> (re_search_class ''release='' non_space line = None \<longrightarrow> release p = None)
        \<and> (re_search_class ''upstream_status='' non_space line = None
             \<longrightarrow> upstream_statuses p = [])
        \<and> (re_search_status line = None \<longrightarrow> final_status p = None)
        \<and> (re_search_class ''upstream='' non_space line = None \<longrightarrow> upstream p = None)
        \<and> (re_search_class ''request_time='' digit_or_dot line = None
             \<longrightarrow> request_time p = None)
        \<and> (re_search_class ''upstream_response_time='' digit_dot_comma_space line = None
             \<longrightarrow> upstream_response_time p = None))
   \<and> (parse_fields line = Inl err \<longrightarrow>
        parse_log_line line = ([Print_parse_failed err], None)
        \<and> process_line s tf te line = (s, [Print_parse_failed err]))"
proof -
  have a: "snd (parse_log_line line) = None \<longleftrightarrow> (\<exists>e. parse_fields line = Inl e)"
    by (cases "parse_fields line") (simp_all add: parse_log_line_def)
  have c: "snd (parse_log_line line) = Some p \<longrightarrow> parse_fields line = Inr p"
    by (cases "parse_fields line") (simp_all add: parse_log_line_def)
  have d: "parse_fields line = Inl err \<longrightarrow>
        parse_log_line line = ([Print_parse_failed err], None)
        \<and> process_line s tf te line = (s, [Print_parse_failed err])"
    by (simp add: parse_log_line_def process_line_def)
  show ?thesis
    using a c d parse_fields_raises_iff [of line] parse_fields_absent [of line p]
    by blast
qed

text \<open>
  A request time with two dots makes \<^verbatim>\<open>float\<close> raise and the line is dropped; the
  empty line matches no pattern and is parsed into an entry without any field.
\<close>

theorem parse_log_line_defensive_witness:
  "re_search_class ''request_time='' digit_or_dot ''pool=blue request_time=1.2.3'' = Some ''1.2.3''
   \<and> py_float ''1.2.3'' = Inl ValueError
   \<and> snd (parse_log_line ''pool=blue request_time=1.2.3'') = None
   \<and> process_line tracking_blue 1700000000 1700000000 ''pool=blue request_time=1.2.3''
       = (tracking_blue, [Print_parse_failed ValueError])
   \<and> snd (parse_log_line '''')
       = Some \<lparr> pool = None, release = None, upstream_statuses = [], final_status = None,
                upstream = None, request_time = None, upstream_response_time = None,
                raw_line = '''' \<rparr>"
proof -
  have t: "re_search_class ''request_time='' digit_or_dot ''pool=blue request_time=1.2.3''
             = Some ''1.2.3''"
    by code_simp
  have f: "py_float ''1.2.3'' = Inl ValueError" by code_simp
  have r: "\<exists>tok. re_search_class ''request_time='' digit_or_dot ''pool=blue request_time=1.2.3''
                   = Some tok \<and> (\<exists>e. py_float tok = Inl e)"
    using t f by blast
  have e: "snd (parse_log_line '''')
       = Some \<lparr> pool = None, release = None, upstream_statuses = [], final_status = None,
                upstream = None, request_time = None, upstream_response_time = None,
                raw_line = '''' \<rparr>"
    by code_simp
  obtain err where err: "parse_fields ''pool=blue request_time=1.2.3'' = Inl err"
    using r parse_log_line_defensive [where line = "''pool=blue request_time=1.2.3''"] by blast
  have v: "err = ValueError" by (cases err) simp
  show ?thesis
    using t f e err v
      parse_log_line_defensive [where line = "''pool=blue request_time=1.2.3''" and err = err
                                  and s = tracking_blue and tf = 1700000000 and te = 1700000000]
    by simp
qed

end
